theory Spec2Isabelle
  imports
    Main
    "HOL-Library.Word"
    "HOL-Library.AList"
    "HOL-Library.Char_ord"
    "HOL-Library.List_Lexorder"
    "HOL-Library.Multiset"
begin

section \<open>The registrar's node dump (package node, package config)\<close>

text \<open>
  The development embeds \<open>DumpInfo\<close> and its helpers (\<open>repoDir\<close>, \<open>updateFile\<close>,
  \<open>writeFile\<close>, \<open>createDirIfNotExist\<close>, \<open>stringsFromPeers\<close>, \<open>sortedGenesis\<close>,
  \<open>NewLightRoot\<close>, \<open>dedupe\<close>) and \<open>Config.Binary\<close>, \<open>Config.Client\<close>.

  Go strings and byte slices are \<open>string\<close> (a list of 8-bit characters); an \<open>error\<close> is
  the text \<open>%s\<close> prints for it, so a function returning \<open>error\<close> returns
  \<open>string option\<close> and one returning \<open>(T, error)\<close> returns \<open>string + T\<close> (\<open>Inl\<close> the
  error).
\<close>

subsection \<open>Standard library: strings, path, fmt\<close>

text \<open>\<open>strings.Split(s, sep)\<close> for a separator of one byte: never an empty result.\<close>

fun strings_Split :: "char \<Rightarrow> string \<Rightarrow> string list" where
  "strings_Split sep [] = [[]]"
| "strings_Split sep (c # cs) =
     (if c = sep then [] # strings_Split sep cs
      else (case strings_Split sep cs of
              [] \<Rightarrow> [[c]]
            | w # ws \<Rightarrow> (c # w) # ws))"

text \<open>\<open>strings.Join(elems, sep)\<close>.\<close>

fun strings_Join :: "string list \<Rightarrow> string \<Rightarrow> string" where
  "strings_Join [] sep = []"
| "strings_Join [e] sep = e"
| "strings_Join (e # es) sep = e @ sep @ strings_Join es sep"

text \<open>
  \<open>path.Clean\<close>, on the elements between slashes. Go's loop skips empty elements and
  \<open>.\<close>; an element \<open>..\<close> removes the element before it when one is there that is not itself
  a kept \<open>..\<close>, is dropped at the root, and is kept otherwise; any other element is
  appended. \<open>clean_step\<close> is one turn of that loop on the elements written so far.
\<close>

definition clean_step :: "bool \<Rightarrow> string list \<Rightarrow> string \<Rightarrow> string list" where
  "clean_step rooted out e =
     (if e = ''..'' then
        (if out \<noteq> [] \<and> last out \<noteq> ''..'' then butlast out
         else if rooted then out
         else out @ [''..''])
      else out @ [e])"

definition path_elems :: "string \<Rightarrow> string list" where
  "path_elems p = filter (\<lambda>e. e \<noteq> [] \<and> e \<noteq> ''.'') (strings_Split CHR ''/'' p)"

definition path_render :: "bool \<Rightarrow> string list \<Rightarrow> string" where
  "path_render rooted out =
     (if rooted then ''/'' @ strings_Join out ''/''
      else if out = [] then ''.''
      else strings_Join out ''/'')"

definition path_rooted :: "string \<Rightarrow> bool" where
  "path_rooted p = (case p of [] \<Rightarrow> False | c # _ \<Rightarrow> c = CHR ''/'')"

definition path_Clean :: "string \<Rightarrow> string" where
  "path_Clean p =
     (if p = [] then ''.''
      else path_render (path_rooted p) (foldl (clean_step (path_rooted p)) [] (path_elems p)))"

text \<open>\<open>path.Join\<close> of two elements, the only arity the package uses.\<close>

definition path_Join :: "string \<Rightarrow> string \<Rightarrow> string" where
  "path_Join a b =
     (if a = [] \<and> b = [] then []
      else path_Clean (if a = [] then b else a @ ''/'' @ b))"

text \<open>\<open>path.Base\<close>: the last element, trailing slashes stripped first.\<close>

definition path_Base :: "string \<Rightarrow> string" where
  "path_Base p =
     (if p = [] then ''.''
      else (let q = rev (dropWhile (\<lambda>c. c = CHR ''/'') (rev p));
                b = rev (takeWhile (\<lambda>c. c \<noteq> CHR ''/'') (rev q))
            in if b = [] then ''/'' else b))"

text \<open>\<open>path.Dir\<close>: everything up to the last slash, cleaned.\<close>

definition path_Dir :: "string \<Rightarrow> string" where
  "path_Dir p = path_Clean (rev (dropWhile (\<lambda>c. c \<noteq> CHR ''/'') (rev p)))"

text \<open>
  Vocabulary for the proofs about paths. A \<open>path_name\<close> is one element that \<open>path.Clean\<close>
  keeps as it is. \<open>clean_elems rooted out\<close> says that \<open>out\<close> is a list of elements the loop
  of \<open>path.Clean\<close> can end with: no empty element, no slash, no \<open>.\<close>, and \<open>..\<close> only in front
  and only when the path is not rooted. A path is \<open>cleaned\<close> when it is empty or written
  from such a list: the results of \<open>path.Join\<close>.
\<close>

definition path_name :: "string \<Rightarrow> bool" where
  "path_name n = (n \<noteq> [] \<and> CHR ''/'' \<notin> set n \<and> n \<noteq> ''.'' \<and> n \<noteq> ''..'')"

definition plain_elem :: "string \<Rightarrow> bool" where
  "plain_elem e = (e \<noteq> [] \<and> CHR ''/'' \<notin> set e \<and> e \<noteq> ''.'')"

definition clean_elems :: "bool \<Rightarrow> string list \<Rightarrow> bool" where
  "clean_elems rooted out =
     (list_all plain_elem out
      \<and> ''..'' \<notin> set (dropWhile (\<lambda>e. e = ''..'') out)
      \<and> (rooted \<longrightarrow> ''..'' \<notin> set out))"

definition cleaned :: "string \<Rightarrow> bool" where
  "cleaned p = (p = [] \<or> (\<exists>r out. clean_elems r out \<and> p = path_render r out))"

text \<open>The verb \<open>%d\<close> of \<open>fmt\<close> on an integer.\<close>

fun fmt_nat :: "nat \<Rightarrow> string" where
  "fmt_nat n =
     (if n < 10 then [''0123456789'' ! n]
      else fmt_nat (n div 10) @ [''0123456789'' ! (n mod 10)])"

declare fmt_nat.simps [simp del]

definition fmt_d :: "int \<Rightarrow> string" where
  "fmt_d i = (if i < 0 then CHR ''-'' # fmt_nat (nat (- i)) else fmt_nat (nat i))"

text \<open>The verb \<open>%x\<close> on bytes (lower case) and \<open>HexBytes.String\<close> (upper case).\<close>

definition hex_byte :: "string \<Rightarrow> char \<Rightarrow> string" where
  "hex_byte digits c = [digits ! (of_char c div (16::nat)), digits ! (of_char c mod (16::nat))]"

definition fmt_x :: "string \<Rightarrow> string" where
  "fmt_x bs = concat (map (hex_byte ''0123456789abcdef'') bs)"

definition HexBytes_String :: "string \<Rightarrow> string" where
  "HexBytes_String bs = concat (map (hex_byte ''0123456789ABCDEF'') bs)"

subsection \<open>Standard library: encoding/json, crypto/sha256\<close>

text \<open>
  A JSON text is represented by its syntax tree, object members in the order they are
  written. \<open>gval\<close> is what \<open>json.Unmarshal\<close> stores into an \<open>interface{}\<close>: \<open>nil\<close>,
  \<open>bool\<close>, \<open>float64\<close>, \<open>string\<close>, \<open>[]interface{}\<close> and \<open>map[string]interface{}\<close>. A Go
  map is an association list with one entry per key; the order of the list is the order
  of first insertion and means nothing, since Go gives a map no order. A \<open>float64\<close> is
  carried as the text the encoder prints for it.
\<close>

datatype json =
    JNull
  | JBool bool
  | JNumber string
  | JString string
  | JArray "json list"
  | JObject "(string \<times> json) list"

datatype gval =
    GNil
  | GBool bool
  | GFloat string
  | GString string
  | GSlice "gval list"
  | GMap "(string \<times> gval) list"

text \<open>
  The library functions whose bodies are not part of the package are parameters of the
  model, collected in one record; \<open>'g\<close> is the type \<open>tmtypes.GenesisDoc\<close>.
  \<^item> \<open>json_Marshal_doc\<close>: \<open>json.Marshal\<close> on a genesis document: an error, or the text it
    emits (as a tree);
  \<^item> \<open>json_float64\<close>: a JSON number literal parsed into a \<open>float64\<close> and printed again;
    \<open>None\<close> when the literal is out of range;
  \<^item> \<open>json_string\<close>: the JSON string literal the encoder writes for a Go string;
  \<^item> \<open>json_Unmarshal_strings\<close>: \<open>json.Unmarshal\<close> into a \<open>[]string\<close>;
  \<^item> \<open>sha256_Sum256\<close>: the 32 bytes of the digest.
\<close>

record 'g golib =
  json_Marshal_doc :: "'g \<Rightarrow> string + json"
  json_float64 :: "string \<Rightarrow> string option"
  json_string :: "string \<Rightarrow> string"
  json_Unmarshal_strings :: "string \<Rightarrow> string + string list"
  sha256_Sum256 :: "string \<Rightarrow> string"

text \<open>
  \<open>json.Unmarshal(text, &c)\<close> with \<open>c\<close> an \<open>interface{}\<close>. Members of an object are stored
  into the map one after the other (\<open>m[key] = value\<close>), so a repeated key keeps its last
  value. The error returned is the first one met in the text.
\<close>

fun json_Unmarshal_any :: "'g golib \<Rightarrow> json \<Rightarrow> string + gval"
  and unmarshal_array :: "'g golib \<Rightarrow> json list \<Rightarrow> string + gval list"
  and unmarshal_object ::
    "'g golib \<Rightarrow> (string \<times> json) list \<Rightarrow> (string \<times> gval) list \<Rightarrow> string + (string \<times> gval) list"
where
  "json_Unmarshal_any L JNull = Inr GNil"
| "json_Unmarshal_any L (JBool b) = Inr (GBool b)"
| "json_Unmarshal_any L (JNumber n) =
     (case json_float64 L n of
        None \<Rightarrow> Inl (''json: cannot unmarshal number '' @ n @ '' into Go value of type float64'')
      | Some f \<Rightarrow> Inr (GFloat f))"
| "json_Unmarshal_any L (JString s) = Inr (GString s)"
| "json_Unmarshal_any L (JArray xs) =
     (case unmarshal_array L xs of Inl e \<Rightarrow> Inl e | Inr vs \<Rightarrow> Inr (GSlice vs))"
| "json_Unmarshal_any L (JObject kvs) =
     (case unmarshal_object L kvs [] of Inl e \<Rightarrow> Inl e | Inr m \<Rightarrow> Inr (GMap m))"
| "unmarshal_array L [] = Inr []"
| "unmarshal_array L (x # xs) =
     (case json_Unmarshal_any L x of
        Inl e \<Rightarrow> Inl e
      | Inr v \<Rightarrow> (case unmarshal_array L xs of Inl e \<Rightarrow> Inl e | Inr vs \<Rightarrow> Inr (v # vs)))"
| "unmarshal_object L [] m = Inr m"
| "unmarshal_object L ((k, x) # kvs) m =
     (case json_Unmarshal_any L x of
        Inl e \<Rightarrow> Inl e
      | Inr v \<Rightarrow> unmarshal_object L kvs (AList.update k v m))"

text \<open>
  \<open>json.MarshalIndent(v, "", "  ")\<close>: a line break and two spaces per level after an opening
  bracket and after every comma, \<open>": "\<close> after a key, \<open>[]\<close> and \<open>{}\<close> for the empty ones. The
  encoder writes the entries of a map in increasing order of their keys (compared as
  bytes).
\<close>

definition json_newline :: "nat \<Rightarrow> string" where
  "json_newline d = CHR 0x0A # concat (replicate d ''  '')"

definition json_block :: "string \<Rightarrow> string \<Rightarrow> nat \<Rightarrow> string list \<Rightarrow> string" where
  "json_block opening closing d items =
     (if items = [] then opening @ closing
      else opening @ json_newline (Suc d)
           @ strings_Join items ('','' @ json_newline (Suc d))
           @ json_newline d @ closing)"

fun json_indent_any :: "'g golib \<Rightarrow> nat \<Rightarrow> gval \<Rightarrow> string" where
  "json_indent_any L d GNil = ''null''"
| "json_indent_any L d (GBool b) = (if b then ''true'' else ''false'')"
| "json_indent_any L d (GFloat f) = f"
| "json_indent_any L d (GString s) = json_string L s"
| "json_indent_any L d (GSlice vs) =
     json_block ''['' '']'' d (map (json_indent_any L (Suc d)) vs)"
| "json_indent_any L d (GMap m) =
     json_block ''{'' ''}'' d
       (map (\<lambda>(k, v). json_string L k @ '': '' @ json_indent_any L (Suc d) v)
            (sort_key fst m))"

definition json_MarshalIndent_any :: "'g golib \<Rightarrow> gval \<Rightarrow> string" where
  "json_MarshalIndent_any L v = json_indent_any L 0 v"

text \<open>
  \<open>json.MarshalIndent\<close> on a \<open>[]string\<close>. Every slice the package marshals was grown by
  \<open>append\<close> from a \<open>nil\<close> slice, so one without elements is \<open>nil\<close> and is written
  \<open>null\<close>. The call cannot fail on strings.
\<close>

definition json_MarshalIndent_strings :: "'g golib \<Rightarrow> string list \<Rightarrow> string" where
  "json_MarshalIndent_strings L xs =
     (if xs = [] then ''null''
      else json_block ''['' '']'' 0 (map (json_string L) xs))"

text \<open>
  \<open>json.MarshalIndent\<close> on a pointer to a struct: the fields in the order of their
  declaration under their \<open>json\<close> tags; the values arrive already encoded.
\<close>

definition json_MarshalIndent_struct :: "'g golib \<Rightarrow> (string \<times> string) list \<Rightarrow> string" where
  "json_MarshalIndent_struct L members =
     json_block ''{'' ''}'' 0 (map (\<lambda>(k, v). json_string L k @ '': '' @ v) members)"

subsection \<open>Standard library: os, io/ioutil\<close>

text \<open>
  The file system is a finite table from cleaned path names to what is there: a regular
  file with its bytes, or a directory. The root and the working directory are always
  directories. The calls fail only for the reasons the table shows (a missing parent
  directory, a name already in use, a directory where a file is wanted); permissions,
  quotas and device faults are outside the model.
\<close>

datatype node = File string | Dir

type_synonym filesystem = "(string \<times> node) list"

definition entry :: "filesystem \<Rightarrow> string \<Rightarrow> node option" where
  "entry fs p =
     (case map_of fs p of
        Some n \<Rightarrow> Some n
      | None \<Rightarrow> (if p = ''/'' \<or> p = ''.'' then Some Dir else None))"

text \<open>\<open>os.Stat\<close> followed by \<open>os.IsNotExist\<close> on its error.\<close>

definition os_IsNotExist_Stat :: "filesystem \<Rightarrow> string \<Rightarrow> bool" where
  "os_IsNotExist_Stat fs p = (entry fs p = None)"

definition os_Mkdir :: "string \<Rightarrow> filesystem \<Rightarrow> string + filesystem" where
  "os_Mkdir p fs =
     (if entry fs p \<noteq> None then Inl (''mkdir '' @ p @ '': file exists'')
      else if entry fs (path_Dir p) \<noteq> Some Dir then
        Inl (''mkdir '' @ p @ '': no such file or directory'')
      else Inr (AList.update p Dir fs))"

text \<open>
  \<open>os.Remove\<close> takes away a file, or a directory that holds nothing; the package drops its
  error, so only the file system is returned.
\<close>

definition os_Remove :: "string \<Rightarrow> filesystem \<Rightarrow> filesystem" where
  "os_Remove p fs =
     (case entry fs p of
        None \<Rightarrow> fs
      | Some (File c) \<Rightarrow> AList.delete p fs
      | Some Dir \<Rightarrow>
          (if list_ex (\<lambda>q. q \<noteq> p \<and> path_Dir q = p) (map fst fs) then fs
           else AList.delete p fs))"

definition ioutil_WriteFile :: "string \<Rightarrow> string \<Rightarrow> filesystem \<Rightarrow> string + filesystem" where
  "ioutil_WriteFile p payload fs =
     (if entry fs p = Some Dir then Inl (''open '' @ p @ '': is a directory'')
      else if entry fs (path_Dir p) \<noteq> Some Dir then
        Inl (''open '' @ p @ '': no such file or directory'')
      else Inr (AList.update p (File payload) fs))"

definition os_Open :: "string \<Rightarrow> filesystem \<Rightarrow> string option" where
  "os_Open p fs =
     (if entry fs p = None then Some (''open '' @ p @ '': no such file or directory'')
      else None)"

definition ioutil_ReadAll :: "string \<Rightarrow> filesystem \<Rightarrow> string + string" where
  "ioutil_ReadAll p fs =
     (case entry fs p of
        Some (File c) \<Rightarrow> Inr c
      | _ \<Rightarrow> Inl (''read '' @ p @ '': is a directory''))"

subsection \<open>The node, the configuration and the package's state\<close>

text \<open>
  What the calls of the RPC client return: \<open>Status\<close> (of which the package reads
  \<open>NodeInfo.Network\<close>, \<open>SyncInfo.CatchingUp\<close> and \<open>SyncInfo.LatestBlockHeight\<close>), \<open>Genesis\<close>,
  \<open>Commit\<close> at a height (of which it reads \<open>SignedHeader.Header.Height\<close> and
  \<open>SignedHeader.Commit.BlockID.Hash\<close>) and \<open>NetInfo\<close> (the peers, of which it reads
  \<open>NodeInfo.ID()\<close>, \<open>RemoteIP\<close> and \<open>NodeInfo.ListenAddr\<close>). Heights are \<open>int64\<close>.
\<close>

record ResultStatus =
  Network :: string
  CatchingUp :: bool
  LatestBlockHeight :: "64 word"

record SignedHeader =
  Height :: "64 word"
  Hash :: string

record Peer =
  ID :: string
  RemoteIP :: string
  ListenAddr :: string

record 'g HTTP =
  rpc_Status :: "string + ResultStatus"
  rpc_Genesis :: "string + 'g"
  rpc_Commit :: "64 word \<Rightarrow> string + SignedHeader"
  rpc_NetInfo :: "string + Peer list"

text \<open>The two library calls of \<open>Config.Client\<close>: what they give for an address.\<close>

record 'g net =
  DefaultHTTPClient :: "string \<Rightarrow> string option"
  NewWithClient :: "string \<Rightarrow> string \<Rightarrow> string + 'g HTTP"

record Config =
  RPCAddr :: string
  ChainID :: string
  BuildRepo :: string
  BuildCommand :: string
  BinaryName :: string
  BuildVersion :: string
  GithubAccessToken :: string
  RegistryRoot :: string
  RegistryRepo :: string
  RegistryRepoBranch :: string
  GitName :: string
  GitEmail :: string
  CommitMessage :: string
  Workspace :: string

text \<open>
  The state a call works on: the disk, the lines the logger has written (a message with
  its key/value pairs), and the package-level variables \<open>gen\<close>, \<open>commit\<close>, \<open>netInfo\<close> and
  \<open>eg\<close>. Of the \<open>errgroup.Group\<close> only the error it holds is state: its \<open>sync.Once\<close> has
  fired exactly when that error is set. These variables live as long as the process.
\<close>

record 'g world =
  disk :: filesystem
  logged :: "(string \<times> string list) list"
  gen :: "'g option"
  commit :: "SignedHeader option"
  netInfo :: "Peer list option"
  eg_err :: "string option"

type_synonym 'g task = "'g world \<Rightarrow> string option \<times> 'g world"

definition log_Info :: "string \<Rightarrow> string list \<Rightarrow> 'g world \<Rightarrow> 'g world" where
  "log_Info msg keyvals w = w\<lparr>logged := logged w @ [(msg, keyvals)]\<rparr>"

definition nil_dereference :: string where
  "nil_dereference = ''panic: runtime error: invalid memory address or nil pointer dereference''"

subsection \<open>Goroutines and the error group\<close>

text \<open>
  Go leaves open in which order the goroutines of a group run and in which order a
  \<open>range\<close> visits a map. Each such choice is a number handed to the model:
  \<open>pick_order seed xs\<close> is a rearrangement of \<open>xs\<close>, and every rearrangement comes from
  some seed.
  A goroutine runs as one step: the model interleaves whole closures, not their
  statements.
\<close>

fun pick_from :: "nat \<Rightarrow> nat \<Rightarrow> 'a list \<Rightarrow> 'a list" where
  "pick_from 0 seed xs = []"
| "pick_from (Suc n) seed xs =
     (if xs = [] then []
      else (let i = seed mod length xs
            in xs ! i # pick_from n (seed div length xs) (take i xs @ drop (Suc i) xs)))"

definition pick_order :: "nat \<Rightarrow> 'a list \<Rightarrow> 'a list" where
  "pick_order seed xs = pick_from (length xs) seed xs"

record sched =
  fetch_seed :: nat
  persist_seed :: nat
  map_seed :: nat

text \<open>
  \<open>eg.Go(f)\<close> runs \<open>f\<close> and, when it returns an error, stores it through \<open>errOnce\<close>: only
  the first error ever given to the group is kept. \<open>eg.Wait()\<close> waits for the goroutines
  and returns the stored error. The group has no context, so nothing is cancelled.
\<close>

definition eg_report :: "string option \<Rightarrow> 'g world \<Rightarrow> 'g world" where
  "eg_report r w =
     (case r of
        None \<Rightarrow> w
      | Some e \<Rightarrow> (if eg_err w = None then w\<lparr>eg_err := Some e\<rparr> else w))"

fun eg_run :: "'g task list \<Rightarrow> 'g world \<Rightarrow> 'g world" where
  "eg_run [] w = w"
| "eg_run (t # ts) w = (case t w of (r, w1) \<Rightarrow> eg_run ts (eg_report r w1))"

definition eg_Go :: "nat \<Rightarrow> 'g task list \<Rightarrow> 'g world \<Rightarrow> 'g world" where
  "eg_Go seed ts w = eg_run (pick_order seed ts) w"

definition eg_Wait :: "'g world \<Rightarrow> string option" where
  "eg_Wait w = eg_err w"

subsection \<open>package config\<close>

text \<open>\<open>Config.Binary\<close>: the \<open>Binary\<close> struct of the four build fields, indented.\<close>

definition Binary :: "'g golib \<Rightarrow> Config \<Rightarrow> string" where
  "Binary L c =
     json_MarshalIndent_struct L
       [(''name'', json_string L (BinaryName c)),
        (''repo'', json_string L (BuildRepo c)),
        (''build'', json_string L (BuildCommand c)),
        (''version'', json_string L (BuildVersion c))]"

definition Client :: "'g net \<Rightarrow> Config \<Rightarrow> string + 'g HTTP" where
  "Client N c =
     (case DefaultHTTPClient N (RPCAddr c) of
        Some e \<Rightarrow> Inl e
      | None \<Rightarrow>
          (case NewWithClient N (RPCAddr c) ''/websocket'' of
             Inl e \<Rightarrow> Inl e
           | Inr rpcClient \<Rightarrow> Inr rpcClient))"

subsection \<open>package node: paths\<close>

record repoDir =
  dir :: string
  chainID :: string

definition chainPath :: "repoDir \<Rightarrow> string" where
  "chainPath r = path_Join (dir r) (chainID r)"

definition genesisPath :: "repoDir \<Rightarrow> string" where
  "genesisPath r = path_Join (chainPath r) ''genesis.json''"

definition genesisSumPath :: "repoDir \<Rightarrow> string" where
  "genesisSumPath r = path_Join (chainPath r) ''genesis.json.sum''"

definition lrpath :: "repoDir \<Rightarrow> string" where
  "lrpath r = path_Join (chainPath r) ''light-roots''"

definition latestPath :: "repoDir \<Rightarrow> string" where
  "latestPath r = path_Join (lrpath r) ''latest.json''"

definition heightPath :: "repoDir \<Rightarrow> 64 word \<Rightarrow> string" where
  "heightPath r h = path_Join (lrpath r) (fmt_d (sint h) @ ''.json'')"

definition binariesPath :: "repoDir \<Rightarrow> string" where
  "binariesPath r = path_Join (chainPath r) ''binaries.json''"

definition peersPath :: "repoDir \<Rightarrow> string" where
  "peersPath r = path_Join (chainPath r) ''peers.json''"

subsection \<open>package node: files and directories\<close>

definition writeFile :: "string \<Rightarrow> string \<Rightarrow> 'g task" where
  "writeFile pth payload w =
     (let w1 = log_Info (''writing pth '' @ path_Base pth) [] w
      in case ioutil_WriteFile pth payload (disk w1) of
           Inl e \<Rightarrow> (Some (''writing '' @ pth @ '': '' @ e), w1)
         | Inr d \<Rightarrow> (None, w1\<lparr>disk := d\<rparr>))"

definition updateFile :: "string \<Rightarrow> string \<Rightarrow> 'g task" where
  "updateFile pth payload w =
     (let w1 = log_Info (''deleting pth '' @ path_Base pth) [] w;
          w2 = w1\<lparr>disk := os_Remove pth (disk w1)\<rparr>
      in writeFile pth payload w2)"

definition updateFileGo :: "string \<Rightarrow> string \<Rightarrow> 'g task" where
  "updateFileGo pth payload = (\<lambda>w. updateFile pth payload w)"

definition createDirIfNotExist :: "string \<Rightarrow> 'g task" where
  "createDirIfNotExist pth w =
     (if os_IsNotExist_Stat (disk w) pth then
        (let w1 = log_Info ''creating directory'' [''dir'', path_Base pth] w
         in case os_Mkdir pth (disk w1) of
              Inl e \<Rightarrow> (Some (''making dir '' @ pth @ '': '' @ e), w1)
            | Inr d \<Rightarrow> (None, w1\<lparr>disk := d\<rparr>))
      else (None, w))"

subsection \<open>package node: peers, genesis, light roots\<close>

text \<open>
  \<open>stringsFromPeers\<close>: \<open>strings.Split\<close> never returns an empty slice, so
  \<open>port[len(port)-1]\<close> is its last element.
\<close>

fun stringsFromPeers :: "Peer list \<Rightarrow> string list" where
  "stringsFromPeers [] = []"
| "stringsFromPeers (p # ni) =
     (ID p @ ''@'' @ RemoteIP p @ '':'' @ last (strings_Split CHR '':'' (ListenAddr p)))
       # stringsFromPeers ni"

text \<open>
  \<open>sortedGenesis\<close> returns \<open>(sum, indented, err)\<close>; its caller reads the first two only
  when \<open>err\<close> is \<open>nil\<close>, so the model returns the error or the pair.
\<close>

definition sortedGenesis :: "'g golib \<Rightarrow> 'g \<Rightarrow> string + (string \<times> string)" where
  "sortedGenesis L g =
     (case json_Marshal_doc L g of
        Inl e \<Rightarrow> Inl e
      | Inr text \<Rightarrow>
          (case json_Unmarshal_any L text of
             Inl e \<Rightarrow> Inl e
           | Inr c \<Rightarrow>
               (let indented = json_MarshalIndent_any L c;
                    sum = fmt_x (sha256_Sum256 L indented)
                in Inr (sum, indented))))"

definition NewLightRoot :: "'g golib \<Rightarrow> SignedHeader \<Rightarrow> string" where
  "NewLightRoot L sh =
     json_MarshalIndent_struct L
       [(''trust-height'', fmt_d (sint (Height sh))),
        (''trust-hash'', json_string L (HexBytes_String (Hash sh)))]"

text \<open>
  \<open>dedupe\<close> puts the elements into a map as keys and collects the keys by \<open>range\<close>: each
  distinct element once, in the order the runtime picks.
\<close>

definition dedupe :: "nat \<Rightarrow> string list \<Rightarrow> string list" where
  "dedupe seed ele = pick_order seed (remdups ele)"

subsection \<open>package node: DumpInfo\<close>

text \<open>The three closures of the first group (source lines 47 to 76).\<close>

definition fetchGenesis :: "'g HTTP \<Rightarrow> Config \<Rightarrow> 'g task" where
  "fetchGenesis client config w =
     (case rpc_Genesis client of
        Inl e \<Rightarrow> (Some (''genesis file: '' @ e), w\<lparr>gen := None\<rparr>)
      | Inr g \<Rightarrow> (None, log_Info ''GET /genesis'' [''rpc-addr'', RPCAddr config] (w\<lparr>gen := Some g\<rparr>)))"

definition fetchCommit :: "'g HTTP \<Rightarrow> Config \<Rightarrow> ResultStatus \<Rightarrow> 'g task" where
  "fetchCommit client config stat w =
     (let h = LatestBlockHeight stat
      in case rpc_Commit client h of
           Inl e \<Rightarrow> (Some (''commit: '' @ e), w\<lparr>commit := None\<rparr>)
         | Inr c \<Rightarrow>
             (None, log_Info (''GET /commit?height='' @ fmt_d (sint h)) [''rpc-addr'', RPCAddr config]
                      (w\<lparr>commit := Some c\<rparr>)))"

definition fetchNetInfo :: "'g HTTP \<Rightarrow> Config \<Rightarrow> 'g task" where
  "fetchNetInfo client config w =
     (case rpc_NetInfo client of
        Inl e \<Rightarrow> (Some (''net-info: '' @ e), w\<lparr>netInfo := None\<rparr>)
      | Inr ni \<Rightarrow>
          (None, log_Info ''GET /net_info'' [''rpc-addr'', RPCAddr config] (w\<lparr>netInfo := Some ni\<rparr>)))"

text \<open>The closure that writes the genesis file and its checksum (lines 93 to 108).\<close>

definition persistGenesis :: "'g golib \<Rightarrow> repoDir \<Rightarrow> 'g task" where
  "persistGenesis L rdir w =
     (if os_IsNotExist_Stat (disk w) (genesisPath rdir) then
        (case gen w of
           None \<Rightarrow> (Some nil_dereference, w)
         | Some g \<Rightarrow>
             (case sortedGenesis L g of
                Inl e \<Rightarrow> (Some (''sorting genesis file: '' @ e), w)
              | Inr (csum, write) \<Rightarrow>
                  (case writeFile (genesisSumPath rdir) csum w of
                     (Some e, w1) \<Rightarrow> (Some e, w1)
                   | (None, w1) \<Rightarrow> writeFile (genesisPath rdir) write w1)))
      else (None, w))"

text \<open>The closure that writes or merges the peers file (lines 109 to 143).\<close>

definition persistPeers :: "'g golib \<Rightarrow> nat \<Rightarrow> repoDir \<Rightarrow> 'g task" where
  "persistPeers L seed rdir w =
     (case netInfo w of
        None \<Rightarrow> (Some nil_dereference, w)
      | Some ni \<Rightarrow>
          (let qp = stringsFromPeers ni
           in if os_IsNotExist_Stat (disk w) (peersPath rdir) then
                (let w1 = log_Info ''no peers file, popoulating from /net_info''
                            [''num'', fmt_d (int (length qp))] w
                 in writeFile (peersPath rdir) (json_MarshalIndent_strings L qp) w1)
              else
                (case os_Open (peersPath rdir) (disk w) of
                   Some e \<Rightarrow> (Some (''opening peer file: '' @ e), w)
                 | None \<Rightarrow>
                     (case ioutil_ReadAll (peersPath rdir) (disk w) of
                        Inl e \<Rightarrow> (Some (''reading peer file: '' @ e), w)
                      | Inr pfb \<Rightarrow>
                          (case json_Unmarshal_strings L pfb of
                             Inl e \<Rightarrow> (Some (''unmarshaling peer strings: '' @ e), w)
                           | Inr fp \<Rightarrow>
                               (let ps = dedupe seed (fp @ qp);
                                    w1 = log_Info (''added '' @ fmt_d (int (length ps) - int (length fp))
                                                   @ '' new peers to '' @ path_Base (peersPath rdir)) [] w
                                in updateFile (peersPath rdir) (json_MarshalIndent_strings L ps) w1))))))"

text \<open>
  \<open>DumpInfo\<close>. The logger is the \<open>logged\<close> field of the state. \<open>NewLightRoot\<close> reads
  \<open>commit.SignedHeader\<close> when the closures of the second group are built, so a \<open>nil\<close>
  \<open>commit\<close> panics there.
\<close>

definition DumpInfo ::
  "'g golib \<Rightarrow> 'g net \<Rightarrow> sched \<Rightarrow> string \<Rightarrow> string \<Rightarrow> Config \<Rightarrow> 'g task" where
  "DumpInfo L N sc base chain config w =
     (case Client N config of
        Inl e \<Rightarrow> (Some (''error creating tendermint client: '' @ e), w)
      | Inr client \<Rightarrow>
     (case rpc_Status client of
        Inl e \<Rightarrow> (Some (''error fetching client status: '' @ e), w)
      | Inr stat \<Rightarrow>
     if Network stat \<noteq> chain then
       (Some (''node('' @ RPCAddr config @ '') is on chain('' @ Network stat
              @ '') not configured chain('' @ chain @ '')''), w)
     else if CatchingUp stat then
       (Some (''node('' @ RPCAddr config @ '') on chain('' @ chain @ '') still catching up''), w)
     else
       (let w1 = log_Info ''GET /status'' [''rpc-addr'', RPCAddr config] w;
            w2 = eg_Go (fetch_seed sc)
                   [fetchGenesis client config, fetchCommit client config stat,
                    fetchNetInfo client config] w1
        in case eg_Wait w2 of
             Some e \<Rightarrow> (Some (''fetching: '' @ e), w2)
           | None \<Rightarrow>
        (let rdir = \<lparr>dir = base, chainID = chain\<rparr>
         in case createDirIfNotExist (chainPath rdir) w2 of
              (Some e, w3) \<Rightarrow> (Some e, w3)
            | (None, w3) \<Rightarrow>
        (case createDirIfNotExist (lrpath rdir) w3 of
           (Some e, w4) \<Rightarrow> (Some e, w4)
         | (None, w4) \<Rightarrow>
        (case commit w4 of
           None \<Rightarrow> (Some nil_dereference, w4)
         | Some c \<Rightarrow>
        (let w5 = eg_Go (persist_seed sc)
                    [updateFileGo (latestPath rdir) (NewLightRoot L c),
                     updateFileGo (heightPath rdir (Height c)) (NewLightRoot L c),
                     updateFileGo (binariesPath rdir) (Binary L config),
                     persistGenesis L rdir,
                     persistPeers L (map_seed sc) rdir] w4
         in (eg_Wait w5, w5))))))))"

subsection \<open>Concrete inputs\<close>

text \<open>
  A library instance for texts without escapes: a string literal is the string between
  double quotes, a number keeps its literal, a genesis document is the tree it marshals
  to, and an array of strings is read back from between its quotes. The digest is a
  stand-in of one byte (the length of the input), enough to run the package on examples.
\<close>

definition plain_string :: "string \<Rightarrow> string" where
  "plain_string s = CHR 0x22 # s @ [CHR 0x22]"

fun odd_elems :: "'a list \<Rightarrow> 'a list" where
  "odd_elems (a # b # xs) = b # odd_elems xs"
| "odd_elems xs = []"

definition plain_strings :: "string \<Rightarrow> string + string list" where
  "plain_strings text =
     (if text = ''null'' then Inr []
      else if text \<noteq> [] \<and> hd text = CHR ''['' \<and> last text = CHR '']''
        then Inr (odd_elems (strings_Split (CHR 0x22) text))
      else Inl ''invalid character looking for beginning of value'')"

definition plain_lib :: "json golib" where
  "plain_lib =
     \<lparr>json_Marshal_doc = Inr, json_float64 = Some, json_string = plain_string,
      json_Unmarshal_strings = plain_strings,
      sha256_Sum256 = (\<lambda>s. [char_of (length s)])\<rparr>"

definition ex_genesis :: json where
  "ex_genesis =
     JObject [(''chain_id'', JString ''chain-A''),
              (''app_state'', JObject [(''b'', JNumber ''1''), (''a'', JArray [JString ''x'', JNull])])]"

definition ex_genesis_reordered :: json where
  "ex_genesis_reordered =
     JObject [(''app_state'', JObject [(''a'', JArray [JString ''x'', JNull]), (''b'', JNumber ''1'')]),
              (''chain_id'', JString ''chain-A'')]"

definition ex_peer_a :: Peer where
  "ex_peer_a = \<lparr>ID = ''a'', RemoteIP = ''1.2.3.4'', ListenAddr = ''tcp://0.0.0.0:26656''\<rparr>"

definition ex_peer_b :: Peer where
  "ex_peer_b = \<lparr>ID = ''b'', RemoteIP = ''5.6.7.8'', ListenAddr = ''tcp://0.0.0.0:26656''\<rparr>"

definition ex_node :: "string \<Rightarrow> json HTTP" where
  "ex_node network =
     \<lparr>rpc_Status = Inr \<lparr>Network = network, CatchingUp = False, LatestBlockHeight = 100\<rparr>,
      rpc_Genesis = Inr ex_genesis,
      rpc_Commit = (\<lambda>h. Inr \<lparr>Height = h, Hash = [CHR 0xAB, CHR 0x01]\<rparr>),
      rpc_NetInfo = Inr [ex_peer_a, ex_peer_b]\<rparr>"

definition ex_net :: "json HTTP \<Rightarrow> json net" where
  "ex_net node = \<lparr>DefaultHTTPClient = (\<lambda>addr. None), NewWithClient = (\<lambda>addr ws. Inr node)\<rparr>"

definition ex_config :: Config where
  "ex_config =
     \<lparr>RPCAddr = ''http://node:26657'', ChainID = ''chain-A'', BuildRepo = ''repo'',
      BuildCommand = ''make'', BinaryName = ''gaiad'', BuildVersion = ''v1'',
      GithubAccessToken = [], RegistryRoot = [], RegistryRepo = [], RegistryRepoBranch = [],
      GitName = [], GitEmail = [], CommitMessage = [], Workspace = []\<rparr>"

definition ex_sched :: sched where
  "ex_sched = \<lparr>fetch_seed = 0, persist_seed = 0, map_seed = 0\<rparr>"

definition ex_world :: "filesystem \<Rightarrow> json world" where
  "ex_world d = \<lparr>disk = d, logged = [], gen = None, commit = None, netInfo = None, eg_err = None\<rparr>"

section \<open>Properties\<close>

subsection \<open>Paths\<close>

lemma Split_nonempty: "strings_Split c s \<noteq> []"
  by (induction s) (auto split: list.splits)

lemma Split_no_sep: "e \<in> set (strings_Split c s) \<Longrightarrow> c \<notin> set e"
  by (induction s arbitrary: e) (auto split: list.splits if_splits)

lemma Split_plain: "c \<notin> set s \<Longrightarrow> strings_Split c s = [s]"
  by (induction s) auto

lemma Split_append:
  "strings_Split c (a @ c # b) = strings_Split c a @ strings_Split c b"
proof (induction a)
  case Nil
  then show ?case by simp
next
  case (Cons x a)
  then show ?case
    using Split_nonempty [of c a] by (cases "strings_Split c a") auto
qed

lemma Split_Join:
  "out \<noteq> [] \<Longrightarrow> \<forall>e\<in>set out. c \<notin> set e \<Longrightarrow> strings_Split c (strings_Join out [c]) = out"
proof (induction out "[c]" rule: strings_Join.induct)
  case 1
  then show ?case by simp
next
  case (2 e)
  then show ?case by (simp add: Split_plain)
next
  case (3 e v va)
  have "strings_Join (e # v # va) [c] = e @ c # strings_Join (v # va) [c]" by simp
  then have "strings_Split c (strings_Join (e # v # va) [c])
             = strings_Split c e @ strings_Split c (strings_Join (v # va) [c])"
    by (simp only: Split_append)
  with 3 show ?case by (simp add: Split_plain del: strings_Join.simps)
qed

lemma Join_snoc:
  "strings_Join (out @ [n]) sep = (if out = [] then n else strings_Join out sep @ sep @ n)"
  by (induction out sep rule: strings_Join.induct) auto

lemma clean_elems_Nil: "clean_elems r []"
  by (simp add: clean_elems_def)

lemma dropWhile_snoc_all:
  "dropWhile P (xs @ [x]) = (if list_all P xs then dropWhile P [x] else dropWhile P xs @ [x])"
  by (induction xs) auto

lemma dropWhile_all: "list_all P xs \<Longrightarrow> dropWhile P xs = []"
  by (simp add: list_all_iff)

lemma dotdot_tail:
  assumes "''..'' \<notin> set (dropWhile (\<lambda>e. e = ''..'') out)" "out = [] \<or> last out = ''..''"
  shows "list_all (\<lambda>e. e = ''..'') out"
proof (cases out rule: rev_cases)
  case Nil
  then show ?thesis by simp
next
  case (snoc ys l)
  with assms(2) have l: "l = ''..''" by simp
  show ?thesis
  proof (cases "list_all (\<lambda>e. e = ''..'') ys")
    case True
    with snoc l show ?thesis by simp
  next
    case False
    with assms(1) snoc l show ?thesis by (simp add: dropWhile_snoc_all)
  qed
qed

lemma clean_step_elems:
  assumes "clean_elems r out" "plain_elem e"
  shows "clean_elems r (clean_step r out e)"
proof (cases "e = ''..''")
  case False
  have "clean_step r out e = out @ [e]" using False by (simp add: clean_step_def)
  moreover have "clean_elems r (out @ [e])"
    using assms False by (simp add: clean_elems_def dropWhile_snoc_all dropWhile_all)
  ultimately show ?thesis by simp
next
  case True
  show ?thesis
  proof (cases "out \<noteq> [] \<and> last out \<noteq> ''..''")
    case pop: True
    then obtain ys l where out: "out = ys @ [l]" and l: "l \<noteq> ''..''"
      by (cases out rule: rev_cases) auto
    have step: "clean_step r out e = ys"
      using True out l by (simp add: clean_step_def)
    have "clean_elems r ys"
    proof (cases "list_all (\<lambda>e. e = ''..'') ys")
      case True
      with assms(1) show ?thesis
        unfolding out by (simp add: clean_elems_def dropWhile_snoc_all dropWhile_all)
    next
      case False
      with assms(1) show ?thesis
        unfolding out by (simp add: clean_elems_def dropWhile_snoc_all)
    qed
    with step show ?thesis by simp
  next
    case False
    then have tail: "out = [] \<or> last out = ''..''" by auto
    show ?thesis
    proof (cases r)
      case True
      have "clean_step r out e = out"
        using True False \<open>e = ''..''\<close> by (auto simp: clean_step_def)
      with assms(1) show ?thesis by simp
    next
      case nr: False
      have nodd: "''..'' \<notin> set (dropWhile (\<lambda>e. e = ''..'') out)"
        using assms(1) by (simp add: clean_elems_def)
      have all: "list_all (\<lambda>e. e = ''..'') out"
        using nodd tail by (rule dotdot_tail)
      have step: "clean_step r out e = out @ [''..'']"
        using nr False \<open>e = ''..''\<close> by (auto simp: clean_step_def)
      show ?thesis
        unfolding step using assms all nr \<open>e = ''..''\<close>
        by (simp add: clean_elems_def dropWhile_snoc_all dropWhile_all)
    qed
  qed
qed

lemma foldl_clean_elems:
  "clean_elems r acc \<Longrightarrow> list_all plain_elem es \<Longrightarrow> clean_elems r (foldl (clean_step r) acc es)"
  by (induction es arbitrary: acc) (auto simp: clean_step_elems)

lemma path_elems_plain: "list_all plain_elem (path_elems p)"
  by (auto simp: path_elems_def list_all_iff plain_elem_def dest: Split_no_sep)

lemma foldl_clean_fixed:
  "clean_elems r out \<Longrightarrow> foldl (clean_step r) [] out = out"
proof (induction out rule: rev_induct)
  case Nil
  then show ?case by simp
next
  case (snoc e out)
  from snoc.prems have pre: "clean_elems r out"
    by (auto simp: clean_elems_def dropWhile_snoc_all dropWhile_all split: if_splits)
  have "clean_step r out e = out @ [e]"
  proof (cases "e = ''..''")
    case False
    then show ?thesis by (simp add: clean_step_def)
  next
    case True
    with snoc.prems have all: "list_all (\<lambda>e. e = ''..'') out" and nr: "\<not> r"
      by (auto simp: clean_elems_def dropWhile_snoc_all split: if_splits)
    from all have "out = [] \<or> last out = ''..''"
      by (cases out rule: rev_cases) (auto simp: list_all_iff)
    with True nr show ?thesis by (auto simp: clean_step_def)
  qed
  with snoc.IH [OF pre] show ?case by simp
qed


lemma Join_hd:
  "out \<noteq> [] \<Longrightarrow> hd out \<noteq> [] \<Longrightarrow> strings_Join out sep \<noteq> [] \<and> hd (strings_Join out sep) = hd (hd out)"
  by (induction out sep rule: strings_Join.induct) auto

lemma path_rooted_render:
  assumes "clean_elems r out"
  shows "path_rooted (path_render r out @ s) = r"
proof (cases r)
  case True
  then show ?thesis by (simp add: path_rooted_def path_render_def)
next
  case False
  show ?thesis
  proof (cases "out = []")
    case True
    with False show ?thesis by (simp add: path_rooted_def path_render_def)
  next
    case ne: False
    then have h: "hd out \<in> set out" by simp
    with assms have p: "plain_elem (hd out)" by (auto simp: clean_elems_def list_all_iff)
    then have "hd out \<noteq> []" by (simp add: plain_elem_def)
    from Join_hd [OF ne this, of "''/''"]
    obtain c cs where j: "strings_Join out ''/'' = c # cs" and c: "c = hd (hd out)"
      by (cases "strings_Join out ''/''") auto
    from p have "hd (hd out) \<noteq> CHR ''/''"
      by (cases "hd out") (auto simp: plain_elem_def)
    with False ne j c show ?thesis by (simp add: path_rooted_def path_render_def)
  qed
qed

lemma filter_plain:
  "list_all plain_elem out \<Longrightarrow> filter (\<lambda>e. e \<noteq> [] \<and> e \<noteq> ''.'') out = out"
  by (induction out) (auto simp: plain_elem_def)

lemma plain_no_slash: "list_all plain_elem out \<Longrightarrow> \<forall>e\<in>set out. CHR ''/'' \<notin> set e"
  by (auto simp: list_all_iff plain_elem_def)

lemma path_elems_render:
  assumes "clean_elems r out"
  shows "path_elems (path_render r out) = out"
proof -
  from assms have pl: "list_all plain_elem out" by (simp add: clean_elems_def)
  show ?thesis
  proof (cases "out = []")
    case True
    then show ?thesis by (cases r) (simp_all add: path_elems_def path_render_def)
  next
    case False
    have sj: "strings_Split CHR ''/'' (strings_Join out ''/'') = out"
      using Split_Join [OF False plain_no_slash [OF pl]] by simp
    show ?thesis
    proof (cases r)
      case True
      have "strings_Split CHR ''/'' (''/'' @ strings_Join out ''/'') = [] # out"
        using Split_append [of "CHR ''/''" "[]" "strings_Join out ''/''"] sj by simp
      with True show ?thesis
        by (simp add: path_elems_def path_render_def filter_plain [OF pl])
    next
      case nr: False
      with False sj show ?thesis
        by (simp add: path_elems_def path_render_def filter_plain [OF pl])
    qed
  qed
qed

lemma path_elems_snoc:
  assumes "path_name n"
  shows "path_elems (p @ ''/'' @ n) = path_elems p @ [n]"
proof -
  have "strings_Split CHR ''/'' (p @ CHR ''/'' # n) = strings_Split CHR ''/'' p @ [n]"
    using assms by (simp add: Split_append Split_plain path_name_def)
  with assms show ?thesis by (simp add: path_elems_def path_name_def)
qed

lemma Clean_render_snoc:
  assumes "clean_elems r out" "path_name n"
  shows "path_Clean (path_render r out @ ''/'' @ n) = path_render r (out @ [n])"
proof -
  let ?p = "path_render r out @ ''/'' @ n"
  have ne: "?p \<noteq> []" by simp
  have ro: "path_rooted ?p = r" using assms(1) by (rule path_rooted_render)
  have el: "path_elems ?p = out @ [n]"
    using path_elems_snoc [OF assms(2)] path_elems_render [OF assms(1)] by simp
  have "foldl (clean_step r) [] (out @ [n]) = clean_step r out n"
    using foldl_clean_fixed [OF assms(1)] by simp
  also have "\<dots> = out @ [n]" using assms(2) by (simp add: clean_step_def path_name_def)
  finally show ?thesis using ne ro el by (simp add: path_Clean_def del: append.simps)
qed

lemma Clean_name:
  assumes "path_name n"
  shows "path_Clean n = path_render False [n]"
proof -
  from assms have "path_elems n = [n]" "path_rooted n = False" "n \<noteq> []"
    by (auto simp: path_elems_def path_name_def Split_plain path_rooted_def split: list.splits)
  with assms show ?thesis by (simp add: path_Clean_def clean_step_def path_name_def)
qed

lemma Clean_form:
  "p \<noteq> [] \<Longrightarrow> \<exists>r out. clean_elems r out \<and> path_Clean p = path_render r out"
  using foldl_clean_elems [OF clean_elems_Nil path_elems_plain]
  by (auto simp: path_Clean_def)

lemma cleaned_Join: "cleaned (path_Join a b)"
  using Clean_form by (auto simp: path_Join_def cleaned_def)

lemma render_nonempty: "clean_elems r out \<Longrightarrow> path_render r out \<noteq> []"
  using Join_hd [of out "''/''"]
  by (cases "out = []") (auto simp: path_render_def clean_elems_def list_all_iff plain_elem_def)

lemma Join_form:
  assumes "cleaned cp" "path_name n"
  shows "\<exists>r out. clean_elems r out \<and> path_Join cp n = path_render r (out @ [n])
           \<and> (cp = [] \<or> cp = path_render r out)"
proof (cases "cp = []")
  case True
  have "clean_elems False []" by (rule clean_elems_Nil)
  moreover have "path_Join cp n = path_render False ([] @ [n])"
    using True assms(2) by (simp add: path_Join_def Clean_name path_name_def)
  ultimately show ?thesis using True by blast
next
  case False
  with assms(1) obtain r out where c: "clean_elems r out" and cp: "cp = path_render r out"
    by (auto simp: cleaned_def)
  have "path_Join cp n = path_render r (out @ [n])"
    using False cp Clean_render_snoc [OF c assms(2)] by (simp add: path_Join_def)
  with c cp show ?thesis by blast
qed

lemma render_snoc:
  "path_render r (out @ [n]) =
     (if out = [] then (if r then ''/'' @ n else n) else path_render r out @ ''/'' @ n)"
  by (auto simp: path_render_def Join_snoc)

lemma Base_suffix:
  assumes "path_name n" "pre = [] \<or> last pre = CHR ''/''"
  shows "path_Base (pre @ n) = n"
proof -
  from assms(1) have n: "n \<noteq> []" "CHR ''/'' \<notin> set n" by (auto simp: path_name_def)
  have "last n \<in> set n" using n(1) by simp
  with n(2) have "last n \<noteq> CHR ''/''" by auto
  moreover have "rev n = last n # rev (butlast n)"
    using n(1) by (metis append_butlast_last_id rev.simps(2) rev_append rev_rev_ident rev_singleton_conv append_Cons append_Nil)
  ultimately obtain c cs where rn: "rev n = c # cs" and c: "c \<noteq> CHR ''/''"
    by blast
  have dw: "dropWhile (\<lambda>c. c = CHR ''/'') (rev n @ rev pre) = rev n @ rev pre"
    unfolding rn using c by simp
  have all: "takeWhile (\<lambda>c. c \<noteq> CHR ''/'') (rev n) = rev n"
    using n(2) by (auto simp: takeWhile_eq_all_conv)
  have tw: "takeWhile (\<lambda>c. c \<noteq> CHR ''/'') (rev n @ rev pre) = rev n"
  proof (cases "pre = []")
    case True
    with all show ?thesis by simp
  next
    case False
    with assms(2) have "hd (rev pre) = CHR ''/''" by (simp add: hd_rev)
    moreover from False have "rev pre \<noteq> []" by simp
    ultimately obtain ps where ps: "rev pre = CHR ''/'' # ps" by (cases "rev pre") auto
    have "takeWhile (\<lambda>c. c \<noteq> CHR ''/'') (rev n @ CHR ''/'' # ps)
          = takeWhile (\<lambda>c. c \<noteq> CHR ''/'') (rev n)"
      by (rule takeWhile_tail) simp
    with all ps show ?thesis by simp
  qed
  have "path_Base (pre @ n) = rev (takeWhile (\<lambda>c. c \<noteq> CHR ''/'') (rev n @ rev pre))"
    using n(1) dw tw by (simp add: path_Base_def Let_def)
  with tw show ?thesis by simp
qed

lemma Base_render_snoc:
  assumes "clean_elems r out" "path_name n"
  shows "path_Base (path_render r (out @ [n])) = n"
proof -
  have "\<exists>pre. path_render r (out @ [n]) = pre @ n \<and> (pre = [] \<or> last pre = CHR ''/'')"
  proof (cases "out = []")
    case True
    show ?thesis
    proof (cases r)
      case True
      with \<open>out = []\<close> have "path_render r (out @ [n]) = ''/'' @ n" by (simp add: path_render_def)
      then show ?thesis by (intro exI [of _ "''/''"]) simp
    next
      case False
      with \<open>out = []\<close> have "path_render r (out @ [n]) = [] @ n" by (simp add: path_render_def)
      then show ?thesis by (intro exI [of _ "[]"]) simp
    qed
  next
    case False
    then have "path_render r (out @ [n]) = (path_render r out @ ''/'') @ n"
      by (simp add: render_snoc)
    then show ?thesis by (intro exI [of _ "path_render r out @ ''/''"]) simp
  qed
  then obtain pre where p: "path_render r (out @ [n]) = pre @ n"
    and l: "pre = [] \<or> last pre = CHR ''/''" by blast
  show ?thesis unfolding p using assms(2) l by (rule Base_suffix)
qed

lemma render_snoc_neq:
  assumes "clean_elems r out" "path_name n"
  shows "path_render r (out @ [n]) \<noteq> path_render r out"
proof (cases "out = []")
  case True
  with assms(2) show ?thesis by (auto simp: render_snoc path_render_def path_name_def)
next
  case False
  then show ?thesis by (simp add: render_snoc)
qed

lemma Base_Join:
  assumes "cleaned cp" "path_name n"
  shows "path_Base (path_Join cp n) = n"
proof -
  from Join_form [OF assms] obtain r out where
    "clean_elems r out" "path_Join cp n = path_render r (out @ [n])" by blast
  then show ?thesis using Base_render_snoc [OF _ assms(2)] by simp
qed

lemma Join_neq_parent:
  assumes "cleaned cp" "path_name n"
  shows "path_Join cp n \<noteq> cp"
proof -
  from Join_form [OF assms] obtain r out where
    c: "clean_elems r out" and j: "path_Join cp n = path_render r (out @ [n])"
    and cp: "cp = [] \<or> cp = path_render r out" by blast
  have c': "clean_elems r (out @ [n])"
    using foldl_clean_elems [OF c, of "[n]"] assms(2)
    by (simp add: clean_step_def path_name_def plain_elem_def)
  from cp show ?thesis
  proof
    assume "cp = []"
    with j render_nonempty [OF c'] show ?thesis by simp
  next
    assume "cp = path_render r out"
    with j render_snoc_neq [OF c assms(2)] show ?thesis by simp
  qed
qed

subsection \<open>Orders and \<open>dedupe\<close>\<close>

lemma mset_pick_from:
  "length xs = n \<Longrightarrow> mset (pick_from n seed xs) = mset xs"
proof (induction n arbitrary: seed xs)
  case 0
  then show ?case by simp
next
  case (Suc n)
  let ?i = "seed mod length xs"
  from Suc.prems have ne: "xs \<noteq> []" by auto
  then have i: "?i < length xs" by simp
  have split: "xs = take ?i xs @ xs ! ?i # drop (Suc ?i) xs"
    using i by (rule id_take_nth_drop)
  have len: "length (take ?i xs @ drop (Suc ?i) xs) = n"
    using Suc.prems i by simp
  have "mset (pick_from (Suc n) seed xs)
        = add_mset (xs ! ?i) (mset (take ?i xs @ drop (Suc ?i) xs))"
    using ne Suc.IH [OF len] by (simp add: Let_def)
  also have "\<dots> = mset (take ?i xs @ xs ! ?i # drop (Suc ?i) xs)" by simp
  also have "\<dots> = mset xs" using split by simp
  finally show ?case .
qed

lemma mset_pick_order: "mset (pick_order seed xs) = mset xs"
  by (simp add: pick_order_def mset_pick_from)

lemma set_pick_order: "set (pick_order seed xs) = set xs"
  using mset_pick_order [of seed xs] by (metis set_mset_mset)

lemma distinct_pick_order: "distinct (pick_order seed xs) = distinct xs"
  using mset_pick_order [of seed xs] by (metis mset_eq_imp_distinct_iff)

lemma length_pick_order: "length (pick_order seed xs) = length xs"
  using mset_pick_order [of seed xs] by (metis size_mset)

lemma set_dedupe: "set (dedupe seed ele) = set ele"
  by (simp add: dedupe_def set_pick_order)

lemma distinct_dedupe: "distinct (dedupe seed ele)"
  by (simp add: dedupe_def distinct_pick_order)

lemma length_dedupe: "length (dedupe seed ele) = card (set ele)"
  by (simp add: dedupe_def length_pick_order length_remdups_card_conv)

subsection \<open>The peer merge\<close>

text \<open>
  C7. Merging the discovered peers \<open>D\<close> into the outcome of merging them into the prior
  peers \<open>P\<close> gives the same set of peers as merging once, whatever order the maps are
  ranged over; the two slices are rearrangements of each other.
\<close>

theorem merge_twice_same_set:
  "set (dedupe seed2 (dedupe seed1 (P @ D) @ D)) = set (dedupe seed1 (P @ D))
   \<and> mset (dedupe seed2 (dedupe seed1 (P @ D) @ D)) = mset (dedupe seed1 (P @ D))"
proof -
  have s: "set (dedupe seed2 (dedupe seed1 (P @ D) @ D)) = set (dedupe seed1 (P @ D))"
    by (auto simp: set_dedupe)
  then have "mset (dedupe seed2 (dedupe seed1 (P @ D) @ D)) = mset (dedupe seed1 (P @ D))"
    using distinct_dedupe set_eq_iff_mset_eq_distinct by blast
  with s show ?thesis by simp
qed

subsection \<open>The gate on the node's status\<close>

text \<open>
  C4. When the node's status names a network other than the configured chain,
  \<open>DumpInfo\<close> returns the error that quotes the node's address, the node's network and
  the configured chain, and the state is the one it was given: nothing was fetched (the
  variables \<open>gen\<close>, \<open>commit\<close>, \<open>netInfo\<close> keep their values), nothing was logged, and the
  disk was not touched. The catching-up flag plays no part.
\<close>

theorem chain_mismatch_stops_before_fetch:
  assumes "Client N config = Inr client"
    and "rpc_Status client = Inr stat"
    and "Network stat \<noteq> chain"
  shows "DumpInfo L N sc base chain config w =
           (Some (''node('' @ RPCAddr config @ '') is on chain('' @ Network stat
                  @ '') not configured chain('' @ chain @ '')''), w)"
  using assms by (simp add: DumpInfo_def)

theorem chain_mismatch_stops_before_fetch_witness:
  "Client (ex_net (ex_node ''chain-B'')) ex_config = Inr (ex_node ''chain-B'')
   \<and> rpc_Status (ex_node ''chain-B'')
       = Inr \<lparr>Network = ''chain-B'', CatchingUp = False, LatestBlockHeight = 100\<rparr>
   \<and> CatchingUp \<lparr>Network = ''chain-B'', CatchingUp = False, LatestBlockHeight = 100\<rparr> = False
   \<and> ''chain-B'' \<noteq> ''chain-A''
   \<and> DumpInfo plain_lib (ex_net (ex_node ''chain-B'')) ex_sched ''reg'' ''chain-A'' ex_config
        (ex_world [(''reg'', Dir)])
      = (Some ''node(http://node:26657) is on chain(chain-B) not configured chain(chain-A)'',
         ex_world [(''reg'', Dir)])"
proof -
  have c: "Client (ex_net (ex_node ''chain-B'')) ex_config = Inr (ex_node ''chain-B'')"
    by (simp add: Client_def ex_net_def)
  have s: "rpc_Status (ex_node ''chain-B'')
           = Inr \<lparr>Network = ''chain-B'', CatchingUp = False, LatestBlockHeight = 100\<rparr>"
    by (simp add: ex_node_def)
  have n: "Network \<lparr>Network = ''chain-B'', CatchingUp = False, LatestBlockHeight = 100\<rparr> \<noteq> ''chain-A''"
    by simp
  show ?thesis
    using chain_mismatch_stops_before_fetch [OF c s n, of plain_lib ex_sched "''reg''" "ex_world [(''reg'', Dir)]"]
          c s
    by (simp add: ex_config_def)
qed

end
